theory Spec2Isabelle
  imports Main
begin

section \<open>The gRPC service of cassandra-medusa: \<^verbatim>\<open>medusa/service/grpc/server.py\<close>\<close>

text \<open>
  The four request handlers of \<^verbatim>\<open>MedusaService\<close> and the module function
  \<^verbatim>\<open>handle_backup_status\<close> are embedded as functions on an explicit service state.
  What Python does beside returning a value is written out: a raised exception is the
  left injection of a sum, the module-wide registry of \<^verbatim>\<open>BackupMan\<close> and the log are
  fields of the state, and a future is an object in a store, because the registry and
  the executor hold the same future by reference.
\<close>

subsection \<open>Exceptions, statuses and futures\<close>

text \<open>
  Faults raised by the collaborators. All of them are instances of Python's
  \<^verbatim>\<open>Exception\<close>, so \<^verbatim>\<open>except Exception\<close> catches each of them, while
  \<^verbatim>\<open>except KeyError\<close> catches the first constructor only. \<open>Exception\<close> stands for an
  instance of any other class.
\<close>

datatype py_exception = KeyError string | TypeError string | Exception string

fun is_KeyError :: "py_exception \<Rightarrow> bool" where
  "is_KeyError (KeyError _) = True"
| "is_KeyError _ = False"

text \<open>
  Modelled from the spec: the status constants \<^verbatim>\<open>BackupMan.IN_PROGRESS\<close>,
  \<^verbatim>\<open>BackupMan.SUCCESS\<close> and \<^verbatim>\<open>BackupMan.FAILED\<close> of \<^verbatim>\<open>medusa/backup_manager.py\<close>,
  which is not among the sources. The spec calls the job status a closed enumeration, so
  the three are distinct values. The fourth status of the spec, \<open>NOT_FOUND\<close>, is the
  \<^verbatim>\<open>None\<close> that \<^verbatim>\<open>handle_backup_status\<close> returns.
\<close>

datatype backup_status = IN_PROGRESS | SUCCESS | FAILED

text \<open>
  The enumeration \<^verbatim>\<open>medusa_pb2.BackupStatusType\<close> of the generated protocol module, as far
  as the handlers name its members.
\<close>

datatype BackupStatusType = PB_IN_PROGRESS | PB_SUCCESS | PB_FAILED

datatype Mode = DIFFERENTIAL | FULL

definition BACKUP_MODE_DIFFERENTIAL :: string where
  "BACKUP_MODE_DIFFERENTIAL = ''differential''"

definition BACKUP_MODE_FULL :: string where
  "BACKUP_MODE_FULL = ''full''"

datatype StatusCode = INTERNAL | NOT_FOUND

text \<open>
  A future is pending (queued or running), cancelled, or finished with either the
  exception its computation raised or the value it returned. Two classes of future
  matter: the one of \<^verbatim>\<open>asyncio\<close>, and the one of \<^verbatim>\<open>concurrent.futures\<close> that
  \<^verbatim>\<open>ThreadPoolExecutor.submit\<close> returns. \<^verbatim>\<open>asyncio.isfuture\<close> tests for the attribute
  \<^verbatim>\<open>_asyncio_future_blocking\<close> on the class of its argument, which the class
  \<^verbatim>\<open>concurrent.futures.Future\<close> does not have.
\<close>

datatype 'r future_state = PENDING | CANCELLED | FINISHED "py_exception + 'r"

datatype future_class = AsyncioFuture | ConcurrentFuture

record 'r py_future =
  fclass :: future_class
  fstate :: "'r future_state"

definition isfuture :: "'r py_future \<Rightarrow> bool" where
  "isfuture f = (fclass f = AsyncioFuture)"

definition future_done :: "'r py_future \<Rightarrow> bool" where
  "future_done f = (fstate f \<noteq> PENDING)"

definition future_cancelled :: "'r py_future \<Rightarrow> bool" where
  "future_cancelled f = (fstate f = CANCELLED)"

text \<open>
  \<^verbatim>\<open>Future.result()\<close> of a finished future returns the value or raises the captured
  exception. On a cancelled or pending future it raises \<^verbatim>\<open>CancelledError\<close> or
  \<^verbatim>\<open>InvalidStateError\<close>; the source calls it on neither.
\<close>

fun future_result :: "'r future_state \<Rightarrow> py_exception + 'r" where
  "future_result (FINISHED (Inr r)) = Inr r"
| "future_result (FINISHED (Inl e)) = Inl e"
| "future_result CANCELLED = Inl (Exception ''CancelledError'')"
| "future_result PENDING = Inl (Exception ''InvalidStateError'')"

definition result :: "'r py_future \<Rightarrow> py_exception + 'r" where
  "result f = future_result (fstate f)"

subsection \<open>Logging and the RPC context\<close>

text \<open>
  A message built with \<^verbatim>\<open>str.format\<close> is kept as the template and its arguments, so that
  no rendering of an exception or of an enumeration member has to be invented.
\<close>

datatype format_arg = ArgStr string | ArgMode Mode | ArgExc py_exception

type_synonym message = "string \<times> format_arg list"

datatype log_record = LogInfo message | LogException message py_exception

record ServicerContext =
  code :: "StatusCode option"
  details :: "message option"

definition set_details :: "message \<Rightarrow> ServicerContext \<Rightarrow> ServicerContext" where
  "set_details m context = context\<lparr>details := Some m\<rparr>"

definition set_code :: "StatusCode \<Rightarrow> ServicerContext \<Rightarrow> ServicerContext" where
  "set_code c context = context\<lparr>code := Some c\<rparr>"

definition new_context :: ServicerContext where
  "new_context = \<lparr>code = None, details = None\<rparr>"

subsection \<open>The service state and the registry of \<^verbatim>\<open>BackupMan\<close>\<close>

type_synonym future_ref = nat

record 'r service_state =
  registry :: "string \<rightharpoonup> future_ref"
  heap :: "future_ref \<Rightarrow> 'r py_future"
  next_ref :: future_ref
  log :: "log_record list"

definition logging_info :: "message \<Rightarrow> 'r service_state \<Rightarrow> 'r service_state" where
  "logging_info m s = s\<lparr>log := log s @ [LogInfo m]\<rparr>"

definition logging_exception ::
  "message \<Rightarrow> py_exception \<Rightarrow> 'r service_state \<Rightarrow> 'r service_state" where
  "logging_exception m e s = s\<lparr>log := log s @ [LogException m e]\<rparr>"

text \<open>
  Modelled from the spec: the registry operations of \<^verbatim>\<open>BackupMan\<close>
  (\<^verbatim>\<open>medusa/backup_manager.py\<close>, not among the sources). The spec has \<open>register\<close> insert
  or overwrite the entry of a name, \<open>lookup\<close> return the handle or absent, \<open>remove\<close>
  delete the entry if present with no error if absent, and \<open>clear_all\<close> remove every
  entry.
\<close>

definition set_backup :: "string \<Rightarrow> future_ref \<Rightarrow> 'r service_state \<Rightarrow> 'r service_state" where
  "set_backup backup_name future s = s\<lparr>registry := (registry s)(backup_name \<mapsto> future)\<rparr>"

definition get_backup_future :: "'r service_state \<Rightarrow> string \<Rightarrow> future_ref option" where
  "get_backup_future s backup_name = registry s backup_name"

definition remove_backup :: "string \<Rightarrow> 'r service_state \<Rightarrow> 'r service_state" where
  "remove_backup backup_name s = s\<lparr>registry := (registry s)(backup_name := None)\<rparr>"

definition cleanup_all_backups :: "'r service_state \<Rightarrow> 'r service_state" where
  "cleanup_all_backups s = s\<lparr>registry := Map.empty\<rparr>"

text \<open>
  The store is total: the addresses below \<open>next_ref\<close> hold the futures allocated so
  far, and what it holds at the other addresses is never read.
\<close>

definition init_heap :: "future_ref \<Rightarrow> 'r py_future" where
  "init_heap = (\<lambda>_. \<lparr>fclass = ConcurrentFuture, fstate = CANCELLED\<rparr>)"

text \<open>The state at service start: an empty registry and no future allocated.\<close>

definition init_state :: "'r service_state" where
  "init_state = \<lparr>registry = Map.empty, heap = init_heap, next_ref = 0, log = []\<rparr>"

subsection \<open>The status resolver\<close>

text \<open>
  \<^verbatim>\<open>handle_backup_status\<close> returns a pair of status and result, or raises what
  \<^verbatim>\<open>backup_future.result()\<close> raises. The test \<^verbatim>\<open>backup_future and
  asyncio.isfuture(backup_future)\<close> fails for \<^verbatim>\<open>None\<close> and for an object that is
  not an \<^verbatim>\<open>asyncio\<close> future.
\<close>

definition handle_backup_status ::
  "'r service_state \<Rightarrow> string \<Rightarrow> py_exception + (backup_status option \<times> 'r option)" where
  "handle_backup_status s backup_name =
     (case get_backup_future s backup_name of
        None \<Rightarrow> Inr (None, None)
      | Some ref \<Rightarrow>
          let backup_future = heap s ref in
          if isfuture backup_future then
            if future_done backup_future \<and> \<not> future_cancelled backup_future then
              (case result backup_future of
                 Inl e \<Rightarrow> Inl e
               | Inr r \<Rightarrow> Inr (Some SUCCESS, Some r))
            else if \<not> future_done backup_future \<and> \<not> future_cancelled backup_future then
              Inr (Some IN_PROGRESS, None)
            else Inr (Some FAILED, None)
          else Inr (None, None))"

definition handle_backup_removal :: "string \<Rightarrow> 'r service_state \<Rightarrow> 'r service_state" where
  "handle_backup_removal backup_name s = remove_backup backup_name s"

definition handle_backup_removal_all :: "'r service_state \<Rightarrow> 'r service_state" where
  "handle_backup_removal_all s = cleanup_all_backups s"

subsection \<open>Durable records and the collaborators\<close>

text \<open>
  An entry of the token map is a dictionary in which each of the keys \<^verbatim>\<open>"dc"\<close>,
  \<^verbatim>\<open>"rack"\<close> and \<^verbatim>\<open>"tokens"\<close> may be missing. The token map is a dictionary by node
  name, kept as the list of its items in iteration order. The node sets of a cluster
  backup are computed by the storage layer when the method is called, so each call may
  raise; a node is represented by its \<^verbatim>\<open>fqdn\<close>.
\<close>

record tokenmap_entry =
  entry_dc :: "string option"
  entry_rack :: "string option"
  entry_tokens :: "int list option"

record cluster_backup =
  name :: string
  started :: "int option"
  finished :: "int option"
  tokenmap :: "(string \<times> tokenmap_entry) list"
  complete_nodes :: "py_exception + string list"
  incomplete_nodes :: "py_exception + string list"
  missing_nodes :: "py_exception + string list"

text \<open>
  What the handlers call outside this module, given as parameters:
  \<^verbatim>\<open>backup_node.handle_backup\<close> run to its end on a backup name and a mode,
  whether \<^verbatim>\<open>executor.submit\<close> raises, \<^verbatim>\<open>Storage.get_cluster_backup\<close>,
  \<^verbatim>\<open>medusa.listing.get_backups\<close>, \<^verbatim>\<open>medusa.purge.delete_backup\<close>, and
  \<^verbatim>\<open>datetime.fromtimestamp(t).strftime(TIMESTAMP_FORMAT)\<close> on an integer, which depends
  on the time zone of the process and raises on a timestamp out of range.
\<close>

record 'r collaborators =
  handle_backup :: "string \<Rightarrow> string \<Rightarrow> py_exception + 'r"
  submit_fault :: "py_exception option"
  get_cluster_backup :: "string \<Rightarrow> py_exception + cluster_backup"
  get_backups :: "py_exception + cluster_backup list"
  delete_backup :: "string list \<Rightarrow> py_exception option"
  strftime :: "int \<Rightarrow> py_exception + string"

text \<open>\<^verbatim>\<open>datetime.fromtimestamp(None)\<close> raises \<^verbatim>\<open>TypeError\<close>.\<close>

definition fromtimestamp_strftime ::
  "'r collaborators \<Rightarrow> int option \<Rightarrow> py_exception + string" where
  "fromtimestamp_strftime env t =
     (case t of
        None \<Rightarrow> Inl (TypeError ''an integer is required (got type NoneType)'')
      | Some n \<Rightarrow> strftime env n)"

subsection \<open>The executor\<close>

text \<open>
  \<^verbatim>\<open>executor.submit\<close> either raises or allocates a pending future of
  \<^verbatim>\<open>concurrent.futures\<close> and hands the job to the worker thread. Leaving the
  \<^verbatim>\<open>with ThreadPoolExecutor(...)\<close> block calls \<^verbatim>\<open>shutdown(wait=True)\<close>, which
  returns once the worker thread has run what was submitted: by then the submitted
  future is finished with the outcome of the job. A job that never ends keeps the block
  from being left at all; the parameter \<open>handle_backup\<close> covers the jobs that end.
\<close>

definition executor_submit ::
  "'r collaborators \<Rightarrow> 'r service_state \<Rightarrow> py_exception + (future_ref \<times> 'r service_state)" where
  "executor_submit env s =
     (case submit_fault env of
        Some e \<Rightarrow> Inl e
      | None \<Rightarrow>
          let ref = next_ref s in
          Inr (ref, s\<lparr>heap := (heap s)(ref := \<lparr>fclass = ConcurrentFuture, fstate = PENDING\<rparr>),
                      next_ref := Suc ref\<rparr>))"

definition executor_exit ::
  "(py_exception + 'r) \<Rightarrow> future_ref \<Rightarrow> 'r service_state \<Rightarrow> 'r service_state" where
  "executor_exit outcome ref s =
     s\<lparr>heap := (heap s)(ref := (heap s ref)\<lparr>fstate := FINISHED outcome\<rparr>)\<rparr>"

subsection \<open>\<^verbatim>\<open>MedusaService.Backup\<close>\<close>

record BackupRequest =
  request_name :: string
  request_mode :: Mode

record BackupResponse =
  backupName :: string
  status :: "BackupStatusType option"

definition new_BackupResponse :: BackupResponse where
  "new_BackupResponse = \<lparr>backupName = [], status = None\<rparr>"

text \<open>
  The body of the \<^verbatim>\<open>try\<close>: it ends normally or with an exception, and in both cases
  leaves the response and the state as they are at that point.
\<close>

definition Backup_try ::
  "'r collaborators \<Rightarrow> BackupRequest \<Rightarrow> string \<Rightarrow> BackupResponse \<Rightarrow> 'r service_state
     \<Rightarrow> py_exception option \<times> BackupResponse \<times> 'r service_state" where
  "Backup_try env request mode resp s =
     (let resp1 = resp\<lparr>backupName := request_name request\<rparr> in
      case executor_submit env s of
        Inl e \<Rightarrow> (Some e, resp1, s)
      | Inr (backup_future, s1) \<Rightarrow>
          let s2 = set_backup (backupName resp1) backup_future s1;
              s3 = executor_exit (handle_backup env (request_name request) mode) backup_future s2;
              resp2 = resp1\<lparr>status := Some PB_IN_PROGRESS\<rparr>;
              s4 = logging_info (''Backup {} is in progress'', [ArgStr (request_name request)]) s3
          in (None, resp2, s4))"

text \<open>
  A handler returns its response or lets an exception escape to the gRPC server; the
  context and the state are what they are at that moment.
\<close>

definition Backup ::
  "'r collaborators \<Rightarrow> BackupRequest \<Rightarrow> ServicerContext \<Rightarrow> 'r service_state
     \<Rightarrow> (py_exception + BackupResponse) \<times> ServicerContext \<times> 'r service_state" where
  "Backup env request context s =
     (let s1 = logging_info (''Performing backup {} (type={})'',
                  [ArgStr (request_name request), ArgMode (request_mode request)]) s;
          resp = new_BackupResponse;
          mode = (if FULL = request_mode request then BACKUP_MODE_FULL
                  else BACKUP_MODE_DIFFERENTIAL)
      in case Backup_try env request mode resp s1 of
           (None, resp1, s2) \<Rightarrow> (Inr resp1, context, s2)
         | (Some e, resp1, s2) \<Rightarrow>
             let context1 = set_details (''failed to create backups: {}'', [ArgExc e]) context;
                 context2 = set_code INTERNAL context1;
                 s3 = logging_exception (''backup failed'', []) e s2;
                 resp2 = resp1\<lparr>status := Some PB_FAILED\<rparr>
             in (Inr resp2, context2, s3))"

subsection \<open>\<^verbatim>\<open>MedusaService.DeleteBackup\<close>\<close>

record DeleteBackupRequest =
  delete_name :: string

definition DeleteBackup_try ::
  "'r collaborators \<Rightarrow> DeleteBackupRequest \<Rightarrow> 'r service_state
     \<Rightarrow> py_exception option \<times> 'r service_state" where
  "DeleteBackup_try env request s =
     (case delete_backup env [delete_name request] of
        Some e \<Rightarrow> (Some e, s)
      | None \<Rightarrow> (None, handle_backup_removal (delete_name request) s))"

text \<open>The response of \<^verbatim>\<open>DeleteBackup\<close> has no field.\<close>

definition DeleteBackup ::
  "'r collaborators \<Rightarrow> DeleteBackupRequest \<Rightarrow> ServicerContext \<Rightarrow> 'r service_state
     \<Rightarrow> (py_exception + unit) \<times> ServicerContext \<times> 'r service_state" where
  "DeleteBackup env request context s =
     (let s1 = logging_info (''Deleting backup {}'', [ArgStr (delete_name request)]) s;
          resp = ()
      in case DeleteBackup_try env request s1 of
           (None, s2) \<Rightarrow> (Inr resp, context, s2)
         | (Some e, s2) \<Rightarrow>
             let context1 = set_details (''deleting backups failed: {}'', [ArgExc e]) context;
                 context2 = set_code INTERNAL context1;
                 s3 = logging_exception
                        (''Deleting backup {} failed'', [ArgStr (delete_name request)]) e s2
             in (Inr resp, context2, s3))"

subsection \<open>\<^verbatim>\<open>MedusaService.GetBackups\<close>\<close>

text \<open>
  A field of a protocol message that was never assigned reads as its default: the empty
  string, zero, the empty list. A status field that was never assigned is \<open>None\<close> here.
\<close>

record BackupNode =
  host :: string
  datacenter :: string
  rack :: string
  tokens :: "int list"

record BackupSummary =
  summary_backupName :: string
  summary_startTime :: int
  summary_finishTime :: int
  summary_status :: "backup_status option"
  totalNodes :: nat
  summary_finishedNodes :: nat
  nodes :: "BackupNode list"

record GetBackupsResponse =
  backups :: "BackupSummary list"

definition new_BackupSummary :: BackupSummary where
  "new_BackupSummary =
     \<lparr>summary_backupName = [], summary_startTime = 0, summary_finishTime = 0,
      summary_status = None, totalNodes = 0, summary_finishedNodes = 0, nodes = []\<rparr>"

definition tokenmap_node :: "string \<Rightarrow> tokenmap_entry \<Rightarrow> BackupNode" where
  "tokenmap_node node entry =
     \<lparr>host = node,
      datacenter = (case entry_dc entry of Some d \<Rightarrow> d | None \<Rightarrow> []),
      rack = (case entry_rack entry of Some r \<Rightarrow> r | None \<Rightarrow> []),
      tokens = (case entry_tokens entry of Some ts \<Rightarrow> ts | None \<Rightarrow> [])\<rparr>"

text \<open>
  One round of the loop over the backups: the summary of one record and the value of
  \<^verbatim>\<open>last_status\<close> after it, or the exception of \<^verbatim>\<open>backup.complete_nodes()\<close>.
\<close>

definition GetBackups_summary ::
  "backup_status \<Rightarrow> cluster_backup \<Rightarrow> py_exception + (BackupSummary \<times> backup_status)" where
  "GetBackups_summary last_status backup =
     (let summary = new_BackupSummary\<lparr>summary_backupName := name backup\<rparr>;
          summary1 = (case started backup of
                        None \<Rightarrow> summary\<lparr>summary_startTime := 0\<rparr>
                      | Some t \<Rightarrow> summary\<lparr>summary_startTime := t\<rparr>);
          (summary2, last_status1) =
             (case finished backup of
                None \<Rightarrow>
                  (summary1\<lparr>summary_finishTime := 0, summary_status := Some IN_PROGRESS\<rparr>,
                   IN_PROGRESS)
              | Some t \<Rightarrow>
                  (if last_status \<noteq> IN_PROGRESS
                   then summary1\<lparr>summary_finishTime := t, summary_status := Some SUCCESS\<rparr>
                   else summary1\<lparr>summary_finishTime := t\<rparr>,
                   last_status));
          summary3 = summary2\<lparr>totalNodes := length (tokenmap backup)\<rparr>
      in case complete_nodes backup of
           Inl e \<Rightarrow> Inl e
         | Inr finished_nodes \<Rightarrow>
             Inr (summary3\<lparr>summary_finishedNodes := length finished_nodes,
                           nodes := map (\<lambda>(node, entry). tokenmap_node node entry)
                                      (tokenmap backup)\<rparr>,
                  last_status1))"

fun GetBackups_loop ::
  "backup_status \<Rightarrow> cluster_backup list \<Rightarrow> GetBackupsResponse
     \<Rightarrow> py_exception option \<times> GetBackupsResponse" where
  "GetBackups_loop last_status [] response = (None, response)"
| "GetBackups_loop last_status (backup # rest) response =
     (case GetBackups_summary last_status backup of
        Inl e \<Rightarrow> (Some e, response)
      | Inr (summary, last_status1) \<Rightarrow>
          GetBackups_loop last_status1 rest
            (response\<lparr>backups := backups response @ [summary]\<rparr>))"

definition GetBackups_try ::
  "'r collaborators \<Rightarrow> backup_status \<Rightarrow> GetBackupsResponse
     \<Rightarrow> py_exception option \<times> GetBackupsResponse" where
  "GetBackups_try env last_status response =
     (case get_backups env of
        Inl e \<Rightarrow> (Some e, response)
      | Inr all_backups \<Rightarrow> GetBackups_loop last_status all_backups response)"

definition GetBackups ::
  "'r collaborators \<Rightarrow> ServicerContext
     \<Rightarrow> (py_exception + GetBackupsResponse) \<times> ServicerContext" where
  "GetBackups env context =
     (let response = \<lparr>backups = []\<rparr>;
          last_status = SUCCESS
      in case GetBackups_try env last_status response of
           (None, response1) \<Rightarrow> (Inr response1, context)
         | (Some e, response1) \<Rightarrow>
             let context1 = set_details (''failed to get backups: {}'', [ArgExc e]) context;
                 context2 = set_code INTERNAL context1
             in (Inr response1, context2))"

subsection \<open>\<^verbatim>\<open>MedusaService.BackupStatus\<close>\<close>

record BackupStatusRequest =
  request_backupName :: string

record BackupStatusResponse =
  startTime :: string
  finishTime :: string
  finishedNodes :: "string list"
  unfinishedNodes :: "string list"
  missingNodes :: "string list"
  response_status :: "BackupStatusType option"

definition new_BackupStatusResponse :: BackupStatusResponse where
  "new_BackupStatusResponse =
     \<lparr>startTime = [], finishTime = [], finishedNodes = [], unfinishedNodes = [],
      missingNodes = [], response_status = None\<rparr>"

text \<open>\<^verbatim>\<open>if backup.finished\<close> takes \<^verbatim>\<open>None\<close> and \<^verbatim>\<open>0\<close> for false.\<close>

definition truthy :: "int option \<Rightarrow> bool" where
  "truthy t = (case t of None \<Rightarrow> False | Some n \<Rightarrow> n \<noteq> 0)"

text \<open>The three \<^verbatim>\<open>if status == ...\<close> statements at the end of the \<^verbatim>\<open>try\<close>.\<close>

definition set_response_status ::
  "backup_status option \<Rightarrow> BackupStatusResponse \<Rightarrow> BackupStatusResponse" where
  "set_response_status st response =
     (let r1 = (if st = Some IN_PROGRESS then response\<lparr>response_status := Some PB_IN_PROGRESS\<rparr>
                else response);
          r2 = (if st = Some FAILED then r1\<lparr>response_status := Some PB_FAILED\<rparr> else r1);
          r3 = (if st = Some SUCCESS then r2\<lparr>response_status := Some PB_SUCCESS\<rparr> else r2)
      in r3)"

definition BackupStatus_try ::
  "'r collaborators \<Rightarrow> BackupStatusRequest \<Rightarrow> BackupStatusResponse \<Rightarrow> 'r service_state
     \<Rightarrow> py_exception option \<times> BackupStatusResponse \<times> 'r service_state" where
  "BackupStatus_try env request response s =
     (case get_cluster_backup env (request_backupName request) of
        Inl e \<Rightarrow> (Some e, response, s)
      | Inr backup \<Rightarrow>
     (let s1 = logging_info (''Checking status: handle_backup_status '', []) s in
     (case handle_backup_status s1 (request_backupName request) of
        Inl e \<Rightarrow> (Some e, response, s1)
      | Inr (st, _) \<Rightarrow>
     (case fromtimestamp_strftime env (started backup) of
        Inl e \<Rightarrow> (Some e, response, s1)
      | Inr start \<Rightarrow>
     (let r1 = response\<lparr>startTime := start\<rparr> in
     (case complete_nodes backup of
        Inl e \<Rightarrow> (Some e, r1, s1)
      | Inr cn \<Rightarrow>
     (let r2 = r1\<lparr>finishedNodes := cn\<rparr> in
     (case incomplete_nodes backup of
        Inl e \<Rightarrow> (Some e, r2, s1)
      | Inr un \<Rightarrow>
     (let r3 = r2\<lparr>unfinishedNodes := un\<rparr> in
     (case missing_nodes backup of
        Inl e \<Rightarrow> (Some e, r3, s1)
      | Inr mn \<Rightarrow>
     (let r4 = r3\<lparr>missingNodes := mn\<rparr> in
     (case (if truthy (finished backup) then fromtimestamp_strftime env (finished backup)
            else Inr []) of
        Inl e \<Rightarrow> (Some e, r4, s1)
      | Inr finish \<Rightarrow>
     (let r5 = r4\<lparr>finishTime := finish\<rparr> in
      (None, set_response_status st r5, s1))))))))))))))"

text \<open>
  The only handler of the \<^verbatim>\<open>try\<close> is \<^verbatim>\<open>except KeyError\<close>: any other exception leaves
  \<^verbatim>\<open>BackupStatus\<close>.
\<close>

definition BackupStatus ::
  "'r collaborators \<Rightarrow> BackupStatusRequest \<Rightarrow> ServicerContext \<Rightarrow> 'r service_state
     \<Rightarrow> (py_exception + BackupStatusResponse) \<times> ServicerContext \<times> 'r service_state" where
  "BackupStatus env request context s =
     (let response = new_BackupStatusResponse
      in case BackupStatus_try env request response s of
           (None, response1, s1) \<Rightarrow> (Inr response1, context, s1)
         | (Some e, response1, s1) \<Rightarrow>
             if is_KeyError e then
               let context1 = set_details (''backup <{}> does not exist'',
                                [ArgStr (request_backupName request)]) context;
                   context2 = set_code NOT_FOUND context1
               in (Inr response1, context2, s1)
             else (Inl e, context, s1))"

subsection \<open>Sample collaborators and records\<close>

text \<open>
  Concrete inputs on which the handlers are run below: a cluster of two nodes, the
  second with an empty token map entry, and collaborators that all succeed. Single
  fields are replaced where a failure is wanted.
\<close>

definition sample_tokenmap :: "(string \<times> tokenmap_entry) list" where
  "sample_tokenmap =
     [(''node1'', \<lparr>entry_dc = Some ''dc1'', entry_rack = Some ''r1'', entry_tokens = Some [7, 42]\<rparr>),
      (''node2'', \<lparr>entry_dc = None, entry_rack = None, entry_tokens = None\<rparr>)]"

definition sample_backup :: "string \<Rightarrow> int option \<Rightarrow> int option \<Rightarrow> cluster_backup" where
  "sample_backup n t_start t_finish =
     \<lparr>name = n, started = t_start, finished = t_finish, tokenmap = sample_tokenmap,
      complete_nodes = Inr [''node1''], incomplete_nodes = Inr [''node2''],
      missing_nodes = Inr []\<rparr>"

definition sample_env :: "unit collaborators" where
  "sample_env =
     \<lparr>handle_backup = (\<lambda>_ _. Inr ()),
      submit_fault = None,
      get_cluster_backup = (\<lambda>n. Inl (KeyError n)),
      get_backups = Inr [],
      delete_backup = (\<lambda>_. None),
      strftime = (\<lambda>_. Inr ''2020-11-03 15:23:00'')\<rparr>"

text \<open>The same collaborators with a backup job that raises.\<close>

definition failing_job_env :: "unit collaborators" where
  "failing_job_env = sample_env\<lparr>handle_backup := (\<lambda>_ _. Inl (Exception ''upload failed''))\<rparr>"

definition sample_state :: "unit service_state" where
  "sample_state = init_state"

text \<open>A state whose registry holds one future, under the name \<open>snap1\<close>.\<close>

definition sample_registered :: "unit py_future \<Rightarrow> unit service_state" where
  "sample_registered f = set_backup ''snap1'' 0 (sample_state\<lparr>heap := (heap sample_state)(0 := f)\<rparr>)"

section \<open>Properties\<close>

subsection \<open>The status resolver\<close>

lemma handle_backup_status_absent:
  "registry s backup_name = None \<Longrightarrow> handle_backup_status s backup_name = Inr (None, None)"
  by (simp add: handle_backup_status_def get_backup_future_def)

lemma handle_backup_status_present:
  "registry s backup_name = Some ref \<Longrightarrow>
   handle_backup_status s backup_name =
     (if isfuture (heap s ref) then
        (case fstate (heap s ref) of
           PENDING \<Rightarrow> Inr (Some IN_PROGRESS, None)
         | CANCELLED \<Rightarrow> Inr (Some FAILED, None)
         | FINISHED (Inl e) \<Rightarrow> Inl e
         | FINISHED (Inr r) \<Rightarrow> Inr (Some SUCCESS, Some r))
      else Inr (None, None))"
  by (simp add: handle_backup_status_def get_backup_future_def future_done_def
      future_cancelled_def result_def Let_def split: future_state.splits sum.splits)

lemma registry_sample_registered: "registry (sample_registered f) ''snap1'' = Some 0"
  by (simp add: sample_registered_def set_backup_def)

lemma heap_sample_registered: "heap (sample_registered f) 0 = f"
  by (simp add: sample_registered_def set_backup_def)

lemma registry_sample_state: "registry sample_state n = None"
  by (simp add: sample_state_def init_state_def)

lemma next_ref_sample_state: "next_ref sample_state = 0"
  by (simp add: sample_state_def init_state_def)

lemma submit_fault_sample_env: "submit_fault sample_env = None"
  by (simp add: sample_env_def)

text \<open>
  The decision tree of the resolver, as far as it is reached. For a name whose registry
  entry is an \<^verbatim>\<open>asyncio\<close> future that did not finish with a captured exception: done
  and not cancelled gives \<open>SUCCESS\<close> with the result, not done and not cancelled gives
  \<open>IN_PROGRESS\<close>, anything else gives \<open>FAILED\<close>. A name absent from the registry
  resolves to \<^verbatim>\<open>None\<close>, and so does a name whose entry fails the test
  \<^verbatim>\<open>asyncio.isfuture\<close>.
\<close>

lemma handle_backup_status_decision_tree:
  "(registry s backup_name = None \<longrightarrow> handle_backup_status s backup_name = Inr (None, None)) \<and>
   (\<forall>ref. registry s backup_name = Some ref \<longrightarrow>
      (\<not> isfuture (heap s ref) \<longrightarrow> handle_backup_status s backup_name = Inr (None, None)) \<and>
      (isfuture (heap s ref) \<and> (\<forall>e. fstate (heap s ref) \<noteq> FINISHED (Inl e)) \<longrightarrow>
         (future_done (heap s ref) \<and> \<not> future_cancelled (heap s ref) \<longrightarrow>
            (\<exists>r. result (heap s ref) = Inr r \<and>
                 handle_backup_status s backup_name = Inr (Some SUCCESS, Some r))) \<and>
         (\<not> future_done (heap s ref) \<and> \<not> future_cancelled (heap s ref) \<longrightarrow>
            handle_backup_status s backup_name = Inr (Some IN_PROGRESS, None)) \<and>
         (\<not> (future_done (heap s ref) \<and> \<not> future_cancelled (heap s ref)) \<and>
          \<not> (\<not> future_done (heap s ref) \<and> \<not> future_cancelled (heap s ref)) \<longrightarrow>
            handle_backup_status s backup_name = Inr (Some FAILED, None))))"
proof (intro conjI allI impI)
  assume "registry s backup_name = None"
  then show "handle_backup_status s backup_name = Inr (None, None)"
    by (rule handle_backup_status_absent)
next
  fix ref
  assume "registry s backup_name = Some ref" "\<not> isfuture (heap s ref)"
  then show "handle_backup_status s backup_name = Inr (None, None)"
    by (simp add: handle_backup_status_present)
next
  fix ref
  assume reg: "registry s backup_name = Some ref"
    and fut: "isfuture (heap s ref) \<and> (\<forall>e. fstate (heap s ref) \<noteq> FINISHED (Inl e))"
    and st: "future_done (heap s ref) \<and> \<not> future_cancelled (heap s ref)"
  from st obtain x where x: "fstate (heap s ref) = FINISHED x"
    by (cases "fstate (heap s ref)") (auto simp: future_done_def future_cancelled_def)
  with fut obtain r where "x = Inr r" by (cases x) auto
  with x reg fut show "\<exists>r. result (heap s ref) = Inr r \<and>
      handle_backup_status s backup_name = Inr (Some SUCCESS, Some r)"
    by (simp add: handle_backup_status_present result_def)
next
  fix ref
  assume "registry s backup_name = Some ref"
    "isfuture (heap s ref) \<and> (\<forall>e. fstate (heap s ref) \<noteq> FINISHED (Inl e))"
    "\<not> future_done (heap s ref) \<and> \<not> future_cancelled (heap s ref)"
  then show "handle_backup_status s backup_name = Inr (Some IN_PROGRESS, None)"
    by (simp add: handle_backup_status_present future_done_def)
next
  fix ref
  assume "registry s backup_name = Some ref"
    "isfuture (heap s ref) \<and> (\<forall>e. fstate (heap s ref) \<noteq> FINISHED (Inl e))"
    "\<not> (future_done (heap s ref) \<and> \<not> future_cancelled (heap s ref)) \<and>
     \<not> (\<not> future_done (heap s ref) \<and> \<not> future_cancelled (heap s ref))"
  then show "handle_backup_status s backup_name = Inr (Some FAILED, None)"
    by (auto simp: handle_backup_status_present future_done_def future_cancelled_def)
qed

text \<open>
  The tree on a finished, a pending and a cancelled \<^verbatim>\<open>asyncio\<close> future, on a future of
  \<^verbatim>\<open>concurrent.futures\<close>, and on a name that was never registered.
\<close>

lemma handle_backup_status_decision_tree_witness:
  "registry (sample_registered \<lparr>fclass = AsyncioFuture, fstate = FINISHED (Inr ())\<rparr>) ''snap1'' = Some 0 \<and>
   isfuture \<lparr>fclass = AsyncioFuture, fstate = FINISHED (Inr ())\<rparr> \<and>
   future_done \<lparr>fclass = AsyncioFuture, fstate = FINISHED (Inr ())\<rparr> \<and>
   \<not> future_cancelled \<lparr>fclass = AsyncioFuture, fstate = FINISHED (Inr ())\<rparr> \<and>
   handle_backup_status (sample_registered \<lparr>fclass = AsyncioFuture, fstate = FINISHED (Inr ())\<rparr>)
     ''snap1'' = Inr (Some SUCCESS, Some ()) \<and>
   \<not> future_done \<lparr>fclass = AsyncioFuture, fstate = PENDING\<rparr> \<and>
   \<not> future_cancelled \<lparr>fclass = AsyncioFuture, fstate = PENDING\<rparr> \<and>
   handle_backup_status (sample_registered \<lparr>fclass = AsyncioFuture, fstate = PENDING\<rparr>)
     ''snap1'' = Inr (Some IN_PROGRESS, None) \<and>
   future_cancelled \<lparr>fclass = AsyncioFuture, fstate = CANCELLED\<rparr> \<and>
   handle_backup_status (sample_registered \<lparr>fclass = AsyncioFuture, fstate = CANCELLED\<rparr>)
     ''snap1'' = Inr (Some FAILED, None) \<and>
   \<not> isfuture \<lparr>fclass = ConcurrentFuture, fstate = PENDING\<rparr> \<and>
   handle_backup_status (sample_registered \<lparr>fclass = ConcurrentFuture, fstate = PENDING\<rparr>)
     ''snap1'' = Inr (None, None) \<and>
   registry sample_state ''snap1'' = None \<and>
   handle_backup_status sample_state ''snap1'' = Inr (None, None)"
proof -
  note tree = handle_backup_status_decision_tree
  have reg: "\<And>f. registry (sample_registered f) ''snap1'' = Some 0"
    by (rule registry_sample_registered)
  have props:
    "isfuture \<lparr>fclass = AsyncioFuture, fstate = FINISHED (Inr ())\<rparr>"
    "future_done \<lparr>fclass = AsyncioFuture, fstate = FINISHED (Inr ())\<rparr>"
    "\<not> future_cancelled \<lparr>fclass = AsyncioFuture, fstate = FINISHED (Inr ())\<rparr>"
    "isfuture \<lparr>fclass = AsyncioFuture, fstate = PENDING\<rparr>"
    "\<not> future_done \<lparr>fclass = AsyncioFuture, fstate = PENDING\<rparr>"
    "\<not> future_cancelled \<lparr>fclass = AsyncioFuture, fstate = PENDING\<rparr>"
    "isfuture \<lparr>fclass = AsyncioFuture, fstate = CANCELLED\<rparr>"
    "future_cancelled \<lparr>fclass = AsyncioFuture, fstate = CANCELLED\<rparr>"
    "future_done \<lparr>fclass = AsyncioFuture, fstate = CANCELLED\<rparr>"
    "\<not> isfuture \<lparr>fclass = ConcurrentFuture, fstate = PENDING\<rparr>"
    by (simp_all add: isfuture_def future_done_def future_cancelled_def)
  have res: "result \<lparr>fclass = AsyncioFuture, fstate = FINISHED (Inr ())\<rparr> = Inr ()"
    by (simp add: result_def)
  show ?thesis
    using tree [of "sample_registered \<lparr>fclass = AsyncioFuture, fstate = FINISHED (Inr ())\<rparr>" "''snap1''"]
      tree [of "sample_registered \<lparr>fclass = AsyncioFuture, fstate = PENDING\<rparr>" "''snap1''"]
      tree [of "sample_registered \<lparr>fclass = AsyncioFuture, fstate = CANCELLED\<rparr>" "''snap1''"]
      tree [of "sample_registered \<lparr>fclass = ConcurrentFuture, fstate = PENDING\<rparr>" "''snap1''"]
      tree [of sample_state "''snap1''"]
    by (simp add: reg heap_sample_registered props res registry_sample_state)
qed

subsection \<open>\<^verbatim>\<open>Backup\<close>\<close>

lemma Backup_submitted:
  "submit_fault env = None \<Longrightarrow>
   Backup env request context s =
     (Inr \<lparr>backupName = request_name request, status = Some PB_IN_PROGRESS\<rparr>,
      context,
      s\<lparr>registry := (registry s)(request_name request \<mapsto> next_ref s),
        heap := (heap s)(next_ref s :=
           \<lparr>fclass = ConcurrentFuture,
            fstate = FINISHED (handle_backup env (request_name request)
                       (if FULL = request_mode request then BACKUP_MODE_FULL
                        else BACKUP_MODE_DIFFERENTIAL))\<rparr>),
        next_ref := Suc (next_ref s),
        log := log s @
          [LogInfo (''Performing backup {} (type={})'',
             [ArgStr (request_name request), ArgMode (request_mode request)]),
           LogInfo (''Backup {} is in progress'', [ArgStr (request_name request)])]\<rparr>)"
  by (simp add: Backup_def Backup_try_def executor_submit_def executor_exit_def set_backup_def
      logging_info_def new_BackupResponse_def Let_def)

lemma Backup_not_submitted:
  "submit_fault env = Some e \<Longrightarrow>
   Backup env request context s =
     (Inr \<lparr>backupName = request_name request, status = Some PB_FAILED\<rparr>,
      context\<lparr>details := Some (''failed to create backups: {}'', [ArgExc e]),
              code := Some INTERNAL\<rparr>,
      s\<lparr>log := log s @
          [LogInfo (''Performing backup {} (type={})'',
             [ArgStr (request_name request), ArgMode (request_mode request)]),
           LogException (''backup failed'', []) e]\<rparr>)"
  by (simp add: Backup_def Backup_try_def executor_submit_def set_details_def set_code_def
      logging_info_def logging_exception_def new_BackupResponse_def Let_def)

text \<open>
  Claim C4 on the code: a future that finished with a captured exception is never
  resolved to \<open>FAILED\<close>. An \<^verbatim>\<open>asyncio\<close> future in that state is done and not
  cancelled, so the first branch calls \<^verbatim>\<open>result()\<close>, which raises the captured
  exception out of \<^verbatim>\<open>handle_backup_status\<close>. The future that \<^verbatim>\<open>Backup\<close> registers
  for a job that raises is a future of \<^verbatim>\<open>concurrent.futures\<close>, and it resolves to
  \<^verbatim>\<open>None\<close>.
\<close>

theorem handle_backup_status_raises_captured_exception:
  "handle_backup_status
     (sample_registered \<lparr>fclass = AsyncioFuture, fstate = FINISHED (Inl (Exception ''upload failed''))\<rparr>)
     ''snap1'' = Inl (Exception ''upload failed'') \<and>
   fstate (heap (snd (snd (Backup failing_job_env \<lparr>request_name = ''snap1'', request_mode = FULL\<rparr>
       new_context sample_state))) 0) = FINISHED (Inl (Exception ''upload failed'')) \<and>
   handle_backup_status (snd (snd (Backup failing_job_env
       \<lparr>request_name = ''snap1'', request_mode = FULL\<rparr> new_context sample_state))) ''snap1''
     = Inr (None, None)"
proof -
  have submitted: "submit_fault failing_job_env = None"
    by (simp add: failing_job_env_def sample_env_def)
  have job: "handle_backup failing_job_env ''snap1'' BACKUP_MODE_FULL = Inl (Exception ''upload failed'')"
    by (simp add: failing_job_env_def)
  have raised: "handle_backup_status
     (sample_registered \<lparr>fclass = AsyncioFuture, fstate = FINISHED (Inl (Exception ''upload failed''))\<rparr>)
     ''snap1'' = Inl (Exception ''upload failed'')"
    by (simp add: handle_backup_status_present [OF registry_sample_registered]
        heap_sample_registered isfuture_def)
  have finished: "fstate (heap (snd (snd (Backup failing_job_env
       \<lparr>request_name = ''snap1'', request_mode = FULL\<rparr> new_context sample_state))) 0)
     = FINISHED (Inl (Exception ''upload failed''))"
    by (simp add: Backup_submitted [OF submitted] next_ref_sample_state job)
  have unresolved: "handle_backup_status (snd (snd (Backup failing_job_env
       \<lparr>request_name = ''snap1'', request_mode = FULL\<rparr> new_context sample_state))) ''snap1''
     = Inr (None, None)"
    by (simp add: Backup_submitted [OF submitted] next_ref_sample_state
        handle_backup_status_def get_backup_future_def isfuture_def)
  from raised finished unresolved show ?thesis by (intro conjI)
qed

text \<open>
  Claim C1 on the code: a name that is in the registry does not resolve to one of the
  three statuses. In the state that \<^verbatim>\<open>Backup\<close> leaves, the name of the request is
  registered and its future is done and not cancelled, so the decision tree of the claim
  gives \<open>SUCCESS\<close>; but the future is one of \<^verbatim>\<open>concurrent.futures\<close>, the test
  \<^verbatim>\<open>asyncio.isfuture\<close> fails on it, and \<^verbatim>\<open>handle_backup_status\<close> answers
  \<^verbatim>\<open>None\<close>, the answer its comment reserves for a backup that is not found.
\<close>

theorem handle_backup_status_concurrent_future_unresolved:
  "registry (snd (snd (Backup sample_env \<lparr>request_name = ''snap1'', request_mode = FULL\<rparr>
       new_context sample_state))) ''snap1'' = Some 0 \<and>
   future_done (heap (snd (snd (Backup sample_env
       \<lparr>request_name = ''snap1'', request_mode = FULL\<rparr> new_context sample_state))) 0) \<and>
   \<not> future_cancelled (heap (snd (snd (Backup sample_env
       \<lparr>request_name = ''snap1'', request_mode = FULL\<rparr> new_context sample_state))) 0) \<and>
   handle_backup_status (snd (snd (Backup sample_env
       \<lparr>request_name = ''snap1'', request_mode = FULL\<rparr> new_context sample_state))) ''snap1''
     = Inr (None, None)"
  by (simp add: Backup_submitted [OF submit_fault_sample_env] next_ref_sample_state
      handle_backup_status_def get_backup_future_def isfuture_def future_done_def
      future_cancelled_def)

text \<open>
  Claim C2 on the code: in the state in which \<^verbatim>\<open>Backup\<close> returns, the future it
  submitted and registered is already finished with the outcome of the backup job. The
  handler leaves the \<^verbatim>\<open>with ThreadPoolExecutor(...)\<close> block before it returns, and
  leaving the block waits for the job.
\<close>

theorem Backup_returns_after_job_finished:
  "registry (snd (snd (Backup sample_env \<lparr>request_name = ''snap1'', request_mode = FULL\<rparr>
       new_context sample_state))) ''snap1'' = Some 0 \<and>
   fstate (heap (snd (snd (Backup sample_env \<lparr>request_name = ''snap1'', request_mode = FULL\<rparr>
       new_context sample_state))) 0) = FINISHED (handle_backup sample_env ''snap1'' ''full'')"
  by (simp add: Backup_submitted [OF submit_fault_sample_env] next_ref_sample_state
      BACKUP_MODE_FULL_def)

text \<open>
  Claim C5. When \<^verbatim>\<open>executor.submit\<close> does not raise, \<^verbatim>\<open>Backup\<close> returns a response
  with \<open>backupName\<close> equal to the name of the request and status \<open>IN_PROGRESS\<close>, and
  in the state at its return the registry maps that name to the future that the
  submission allocated (the one at address \<open>next_ref s\<close>, a future of the executor).
\<close>

theorem Backup_registers_handle:
  assumes "submit_fault env = None"
  shows "\<exists>s'. Backup env request context s =
            (Inr \<lparr>backupName = request_name request, status = Some PB_IN_PROGRESS\<rparr>, context, s') \<and>
          registry s' (request_name request) = Some (next_ref s) \<and>
          fclass (heap s' (next_ref s)) = ConcurrentFuture \<and>
          next_ref s < next_ref s'"
  using assms by (simp add: Backup_submitted)

theorem Backup_registers_handle_witness:
  "submit_fault sample_env = None \<and>
   fst (Backup sample_env \<lparr>request_name = ''snap1'', request_mode = DIFFERENTIAL\<rparr>
          new_context sample_state) = Inr \<lparr>backupName = ''snap1'', status = Some PB_IN_PROGRESS\<rparr> \<and>
   registry (snd (snd (Backup sample_env \<lparr>request_name = ''snap1'', request_mode = DIFFERENTIAL\<rparr>
          new_context sample_state))) ''snap1'' = Some 0"
  using Backup_registers_handle [OF submit_fault_sample_env,
      of "\<lparr>request_name = ''snap1'', request_mode = DIFFERENTIAL\<rparr>" new_context sample_state]
  by (auto simp: submit_fault_sample_env next_ref_sample_state)

text \<open>
  Claim C9. When \<^verbatim>\<open>executor.submit\<close> raises, \<^verbatim>\<open>Backup\<close> returns normally: the response
  has status \<open>FAILED\<close>, the context carries the code \<open>INTERNAL\<close> and the details of the
  fault, the failure is logged with \<^verbatim>\<open>logging.exception\<close>, and nothing else of the
  state changes.
\<close>

theorem Backup_submission_failure:
  assumes "submit_fault env = Some e"
  shows "Backup env request context s =
     (Inr \<lparr>backupName = request_name request, status = Some PB_FAILED\<rparr>,
      context\<lparr>details := Some (''failed to create backups: {}'', [ArgExc e]),
              code := Some INTERNAL\<rparr>,
      s\<lparr>log := log s @
          [LogInfo (''Performing backup {} (type={})'',
             [ArgStr (request_name request), ArgMode (request_mode request)]),
           LogException (''backup failed'', []) e]\<rparr>)"
  using assms by (rule Backup_not_submitted)

theorem Backup_submission_failure_witness:
  "submit_fault (sample_env\<lparr>submit_fault := Some (Exception ''cannot start new thread'')\<rparr>)
     = Some (Exception ''cannot start new thread'') \<and>
   fst (Backup (sample_env\<lparr>submit_fault := Some (Exception ''cannot start new thread'')\<rparr>)
          \<lparr>request_name = ''snap1'', request_mode = FULL\<rparr> new_context sample_state)
     = Inr \<lparr>backupName = ''snap1'', status = Some PB_FAILED\<rparr> \<and>
   code (fst (snd (Backup (sample_env\<lparr>submit_fault := Some (Exception ''cannot start new thread'')\<rparr>)
          \<lparr>request_name = ''snap1'', request_mode = FULL\<rparr> new_context sample_state)))
     = Some INTERNAL \<and>
   registry (snd (snd (Backup (sample_env\<lparr>submit_fault := Some (Exception ''cannot start new thread'')\<rparr>)
          \<lparr>request_name = ''snap1'', request_mode = FULL\<rparr> new_context sample_state))) ''snap1''
     = None"
  using Backup_submission_failure
     [of "sample_env\<lparr>submit_fault := Some (Exception ''cannot start new thread'')\<rparr>"
      "Exception ''cannot start new thread''"
      "\<lparr>request_name = ''snap1'', request_mode = FULL\<rparr>" new_context sample_state]
  by (simp add: sample_state_def init_state_def)

subsection \<open>\<^verbatim>\<open>DeleteBackup\<close>\<close>

lemma DeleteBackup_purge_failed:
  "delete_backup env [delete_name request] = Some e \<Longrightarrow>
   DeleteBackup env request context s =
     (Inr (),
      context\<lparr>details := Some (''deleting backups failed: {}'', [ArgExc e]),
              code := Some INTERNAL\<rparr>,
      s\<lparr>log := log s @
          [LogInfo (''Deleting backup {}'', [ArgStr (delete_name request)]),
           LogException (''Deleting backup {} failed'', [ArgStr (delete_name request)]) e]\<rparr>)"
  by (simp add: DeleteBackup_def DeleteBackup_try_def set_details_def set_code_def
      logging_info_def logging_exception_def Let_def)

lemma DeleteBackup_purged:
  "delete_backup env [delete_name request] = None \<Longrightarrow>
   DeleteBackup env request context s =
     (Inr (), context,
      s\<lparr>registry := (registry s)(delete_name request := None),
        log := log s @ [LogInfo (''Deleting backup {}'', [ArgStr (delete_name request)])]\<rparr>)"
  by (simp add: DeleteBackup_def DeleteBackup_try_def handle_backup_removal_def
      remove_backup_def logging_info_def Let_def)

text \<open>
  Claim C8. If \<^verbatim>\<open>delete_backup\<close> raises, \<^verbatim>\<open>DeleteBackup\<close> sets the code \<open>INTERNAL\<close> and
  returns with the registry and the futures as they were; if it does not raise, the
  handler returns with the entry of the name removed from the registry and no error
  code set.
\<close>

theorem DeleteBackup_registry:
  "(\<forall>e. delete_backup env [delete_name request] = Some e \<longrightarrow>
      (\<exists>context' s'. DeleteBackup env request context s = (Inr (), context', s') \<and>
         code context' = Some INTERNAL \<and> registry s' = registry s \<and> heap s' = heap s)) \<and>
   (delete_backup env [delete_name request] = None \<longrightarrow>
      (\<exists>s'. DeleteBackup env request context s = (Inr (), context, s') \<and>
         registry s' = (registry s)(delete_name request := None)))"
  by (simp add: DeleteBackup_purge_failed DeleteBackup_purged)

theorem DeleteBackup_registry_witness:
  "delete_backup (sample_env\<lparr>delete_backup := (delete_backup sample_env)
       ([''snap1''] := Some (KeyError ''snap1''))\<rparr>) [''snap1''] = Some (KeyError ''snap1'') \<and>
   registry (snd (snd (DeleteBackup
       (sample_env\<lparr>delete_backup := (delete_backup sample_env)
          ([''snap1''] := Some (KeyError ''snap1''))\<rparr>)
       \<lparr>delete_name = ''snap1''\<rparr> new_context
       (sample_registered \<lparr>fclass = AsyncioFuture, fstate = PENDING\<rparr>)))) ''snap1'' = Some 0 \<and>
   code (fst (snd (DeleteBackup
       (sample_env\<lparr>delete_backup := (delete_backup sample_env)
          ([''snap1''] := Some (KeyError ''snap1''))\<rparr>)
       \<lparr>delete_name = ''snap1''\<rparr> new_context
       (sample_registered \<lparr>fclass = AsyncioFuture, fstate = PENDING\<rparr>)))) = Some INTERNAL \<and>
   delete_backup sample_env [''snap1''] = None \<and>
   registry (snd (snd (DeleteBackup sample_env \<lparr>delete_name = ''snap1''\<rparr> new_context
       (sample_registered \<lparr>fclass = AsyncioFuture, fstate = PENDING\<rparr>)))) ''snap1'' = None"
  using
    DeleteBackup_registry [of "sample_env\<lparr>delete_backup := (delete_backup sample_env)
          ([''snap1''] := Some (KeyError ''snap1''))\<rparr>"
        "\<lparr>delete_name = ''snap1''\<rparr>" new_context
        "sample_registered \<lparr>fclass = AsyncioFuture, fstate = PENDING\<rparr>"]
    DeleteBackup_registry [of sample_env "\<lparr>delete_name = ''snap1''\<rparr>" new_context
        "sample_registered \<lparr>fclass = AsyncioFuture, fstate = PENDING\<rparr>"]
  by (auto simp: sample_env_def sample_registered_def set_backup_def)

subsection \<open>\<^verbatim>\<open>GetBackups\<close>\<close>

lemma GetBackups_summary_raises:
  "complete_nodes backup = Inl e \<Longrightarrow> GetBackups_summary last_status backup = Inl e"
  by (simp add: GetBackups_summary_def Let_def split: option.splits prod.splits)

lemma GetBackups_summary_returns:
  "complete_nodes backup = Inr cn \<Longrightarrow>
   GetBackups_summary last_status backup =
     Inr (\<lparr>summary_backupName = name backup,
           summary_startTime = (case started backup of None \<Rightarrow> 0 | Some t \<Rightarrow> t),
           summary_finishTime = (case finished backup of None \<Rightarrow> 0 | Some t \<Rightarrow> t),
           summary_status =
             (if finished backup = None then Some IN_PROGRESS
              else if last_status \<noteq> IN_PROGRESS then Some SUCCESS else None),
           totalNodes = length (tokenmap backup),
           summary_finishedNodes = length cn,
           nodes = map (\<lambda>(node, entry). tokenmap_node node entry) (tokenmap backup)\<rparr>,
          if finished backup = None then IN_PROGRESS else last_status)"
  by (simp add: GetBackups_summary_def new_BackupSummary_def Let_def split: option.splits)

text \<open>The loop on records that can all be summarized.\<close>

lemma GetBackups_loop_returns:
  "\<forall>b\<in>set bs. \<exists>cn. complete_nodes b = Inr cn \<Longrightarrow>
   \<exists>ss. GetBackups_loop last_status bs response = (None, response\<lparr>backups := backups response @ ss\<rparr>) \<and>
        length ss = length bs \<and>
        (\<forall>i<length bs. summary_status (ss ! i) =
           (if finished (bs ! i) = None then Some IN_PROGRESS
            else if last_status = IN_PROGRESS \<or> (\<exists>b\<in>set (take i bs). finished b = None) then None
            else Some SUCCESS))"
proof (induction bs arbitrary: last_status response)
  case Nil
  then show ?case by simp
next
  case (Cons b bs)
  from Cons.prems obtain cn where cn: "complete_nodes b = Inr cn" by auto
  define summary where "summary = fst (projr (GetBackups_summary last_status b))"
  define last1 where "last1 = (if finished b = None then IN_PROGRESS else last_status)"
  have step: "GetBackups_summary last_status b = Inr (summary, last1)"
    by (simp add: summary_def last1_def GetBackups_summary_returns [OF cn])
  have st: "summary_status summary =
      (if finished b = None then Some IN_PROGRESS
       else if last_status \<noteq> IN_PROGRESS then Some SUCCESS else None)"
    by (simp add: summary_def GetBackups_summary_returns [OF cn])
  from Cons.prems have "\<forall>b\<in>set bs. \<exists>cn. complete_nodes b = Inr cn" by simp
  from Cons.IH [OF this, of last1 "response\<lparr>backups := backups response @ [summary]\<rparr>"]
  obtain ss where ss:
    "GetBackups_loop last1 bs (response\<lparr>backups := backups response @ [summary]\<rparr>) =
       (None, response\<lparr>backups := backups response @ summary # ss\<rparr>)"
    "length ss = length bs"
    "\<forall>i<length bs. summary_status (ss ! i) =
           (if finished (bs ! i) = None then Some IN_PROGRESS
            else if last1 = IN_PROGRESS \<or> (\<exists>b\<in>set (take i bs). finished b = None) then None
            else Some SUCCESS)"
    by auto
  have "\<forall>i<length (b # bs). summary_status ((summary # ss) ! i) =
           (if finished ((b # bs) ! i) = None then Some IN_PROGRESS
            else if last_status = IN_PROGRESS \<or> (\<exists>x\<in>set (take i (b # bs)). finished x = None) then None
            else Some SUCCESS)"
  proof (intro allI impI)
    fix i assume i: "i < length (b # bs)"
    show "summary_status ((summary # ss) ! i) =
           (if finished ((b # bs) ! i) = None then Some IN_PROGRESS
            else if last_status = IN_PROGRESS \<or> (\<exists>x\<in>set (take i (b # bs)). finished x = None) then None
            else Some SUCCESS)"
    proof (cases i)
      case 0
      then show ?thesis by (simp add: st)
    next
      case (Suc k)
      with i have "k < length bs" by simp
      with ss(3) have "summary_status (ss ! k) =
           (if finished (bs ! k) = None then Some IN_PROGRESS
            else if last1 = IN_PROGRESS \<or> (\<exists>b\<in>set (take k bs). finished b = None) then None
            else Some SUCCESS)" by blast
      then show ?thesis using Suc by (auto simp: last1_def)
    qed
  qed
  with ss(1,2) step show ?case
    by (intro exI [of _ "summary # ss"]) simp
qed

lemma GetBackups_loop_raises:
  "\<forall>b\<in>set pre. \<exists>cn. complete_nodes b = Inr cn \<Longrightarrow> complete_nodes bad = Inl e \<Longrightarrow>
   GetBackups_loop last_status (pre @ bad # post) response =
     (Some e, snd (GetBackups_loop last_status pre response))"
proof (induction pre arbitrary: last_status response)
  case Nil
  then show ?case by (simp add: GetBackups_summary_raises)
next
  case (Cons b pre)
  from Cons.prems obtain cn where cn: "complete_nodes b = Inr cn" by auto
  from Cons.prems have rest: "\<forall>b\<in>set pre. \<exists>cn. complete_nodes b = Inr cn" by simp
  show ?case
    by (simp add: GetBackups_summary_returns [OF cn] Cons.IH [OF rest Cons.prems(2)])
qed

lemma GetBackups_loop_summaries:
  "GetBackups_loop last_status bs response = (err, response') \<Longrightarrow>
   \<exists>ss. backups response' = backups response @ ss \<and> length ss \<le> length bs \<and>
     (\<forall>i<length ss. \<exists>l l'. GetBackups_summary l (bs ! i) = Inr (ss ! i, l'))"
proof (induction bs arbitrary: last_status response)
  case Nil
  then show ?case by auto
next
  case (Cons b bs)
  show ?case
  proof (cases "GetBackups_summary last_status b")
    case (Inl e)
    with Cons.prems have "response' = response" by simp
    then show ?thesis by simp
  next
    case (Inr p)
    obtain summary last1 where p: "p = (summary, last1)" by (cases p)
    with Inr Cons.prems have
      "GetBackups_loop last1 bs (response\<lparr>backups := backups response @ [summary]\<rparr>) = (err, response')"
      by simp
    from Cons.IH [OF this] obtain ss where ss:
      "backups response' = backups response @ summary # ss" "length ss \<le> length bs"
      "\<forall>i<length ss. \<exists>l l'. GetBackups_summary l (bs ! i) = Inr (ss ! i, l')"
      by auto
    have "\<forall>i<length (summary # ss). \<exists>l l'. GetBackups_summary l ((b # bs) ! i) = Inr ((summary # ss) ! i, l')"
    proof (intro allI impI)
      fix i assume "i < length (summary # ss)"
      then show "\<exists>l l'. GetBackups_summary l ((b # bs) ! i) = Inr ((summary # ss) ! i, l')"
        using ss(3) Inr p by (cases i) auto
    qed
    with ss(1,2) show ?thesis
      by (intro exI [of _ "summary # ss"]) simp
  qed
qed

lemma GetBackups_summary_fields:
  assumes "GetBackups_summary last_status backup = Inr (summary, last_status')"
  shows "\<exists>cn. complete_nodes backup = Inr cn \<and>
     summary =
       \<lparr>summary_backupName = name backup,
        summary_startTime = (case started backup of None \<Rightarrow> 0 | Some t \<Rightarrow> t),
        summary_finishTime = (case finished backup of None \<Rightarrow> 0 | Some t \<Rightarrow> t),
        summary_status =
          (if finished backup = None then Some IN_PROGRESS
           else if last_status \<noteq> IN_PROGRESS then Some SUCCESS else None),
        totalNodes = length (tokenmap backup),
        summary_finishedNodes = length cn,
        nodes = map (\<lambda>(node, entry). tokenmap_node node entry) (tokenmap backup)\<rparr>"
proof (cases "complete_nodes backup")
  case (Inl e)
  with assms show ?thesis by (simp add: GetBackups_summary_raises)
next
  case (Inr cn)
  with assms show ?thesis by (simp add: GetBackups_summary_returns [OF Inr])
qed

lemma GetBackups_listed:
  "get_backups env = Inr bs \<Longrightarrow>
   GetBackups env context =
     (case GetBackups_loop SUCCESS bs \<lparr>backups = []\<rparr> of
        (None, response1) \<Rightarrow> (Inr response1, context)
      | (Some e, response1) \<Rightarrow>
          (Inr response1,
           context\<lparr>details := Some (''failed to get backups: {}'', [ArgExc e]),
                   code := Some INTERNAL\<rparr>))"
  by (simp add: GetBackups_def GetBackups_try_def set_details_def set_code_def Let_def
      split: prod.splits option.splits)

lemma GetBackups_not_listed:
  "get_backups env = Inl e \<Longrightarrow>
   GetBackups env context =
     (Inr \<lparr>backups = []\<rparr>,
      context\<lparr>details := Some (''failed to get backups: {}'', [ArgExc e]),
              code := Some INTERNAL\<rparr>)"
  by (simp add: GetBackups_def GetBackups_try_def set_details_def set_code_def Let_def)

lemma GetBackups_summary_flag:
  assumes "GetBackups_summary flag b = Inr (summary, flag')"
  shows "(finished b = None \<longrightarrow> summary_status summary = Some IN_PROGRESS \<and> flag' = IN_PROGRESS) \<and>
      (finished b \<noteq> None \<longrightarrow> flag' = flag \<and>
         summary_status summary = (if flag \<noteq> IN_PROGRESS then Some SUCCESS else None))"
proof -
  from assms obtain cn where cn: "complete_nodes b = Inr cn"
    using GetBackups_summary_fields by blast
  from assms show ?thesis
    by (auto simp: GetBackups_summary_returns [OF cn])
qed

lemma GetBackups_rollup:
  assumes "get_backups env = Inr bs" and ok: "\<forall>b\<in>set bs. \<exists>cn. complete_nodes b = Inr cn"
  shows "\<exists>ss. GetBackups env context = (Inr \<lparr>backups = ss\<rparr>, context) \<and> length ss = length bs \<and>
         (\<forall>i<length bs. summary_status (ss ! i) =
            (if finished (bs ! i) = None then Some IN_PROGRESS
             else if \<exists>b\<in>set (take i bs). finished b = None then None
             else Some SUCCESS))"
proof -
  from GetBackups_loop_returns [OF ok, of SUCCESS "\<lparr>backups = []\<rparr>"]
  obtain ss where ss:
    "GetBackups_loop SUCCESS bs \<lparr>backups = []\<rparr> = (None, \<lparr>backups = ss\<rparr>)"
    "length ss = length bs"
    "\<forall>i<length bs. summary_status (ss ! i) =
           (if finished (bs ! i) = None then Some IN_PROGRESS
            else if SUCCESS = IN_PROGRESS \<or> (\<exists>b\<in>set (take i bs). finished b = None) then None
            else Some SUCCESS)"
    by auto
  from assms(1) have "GetBackups env context = (Inr \<lparr>backups = ss\<rparr>, context)"
    by (simp add: GetBackups_listed ss(1))
  moreover have "\<forall>i<length bs. summary_status (ss ! i) =
           (if finished (bs ! i) = None then Some IN_PROGRESS
            else if \<exists>b\<in>set (take i bs). finished b = None then None
            else Some SUCCESS)"
  proof (intro allI impI)
    fix i assume "i < length bs"
    with ss(3) have "summary_status (ss ! i) =
           (if finished (bs ! i) = None then Some IN_PROGRESS
            else if SUCCESS = IN_PROGRESS \<or> (\<exists>b\<in>set (take i bs). finished b = None) then None
            else Some SUCCESS)"
      by blast
    also have "(SUCCESS = IN_PROGRESS \<or> (\<exists>b\<in>set (take i bs). finished b = None))
        = (\<exists>b\<in>set (take i bs). finished b = None)"
      by simp
    finally show "summary_status (ss ! i) =
           (if finished (bs ! i) = None then Some IN_PROGRESS
            else if \<exists>b\<in>set (take i bs). finished b = None then None
            else Some SUCCESS)" .
  qed
  ultimately show ?thesis using ss(2) by blast
qed

text \<open>
  Claim C6. One round of the loop with the rolling flag \<^verbatim>\<open>last_status\<close>: a record
  without finish timestamp is marked \<open>IN_PROGRESS\<close> and sets the flag to
  \<open>IN_PROGRESS\<close>; a record with a finish timestamp leaves the flag as it is and is
  marked \<open>SUCCESS\<close> only if the flag is not \<open>IN_PROGRESS\<close>, and is left without status
  otherwise. With the flag seeded to \<open>SUCCESS\<close>, the status of the \<open>i\<close>-th summary
  of \<^verbatim>\<open>GetBackups\<close> therefore depends on the records before it: a finished record
  has no status as soon as one of the first \<open>i\<close> records is unfinished. The witness is
  the scenario of the spec: A finished, B unfinished, C finished give \<open>SUCCESS\<close>,
  \<open>IN_PROGRESS\<close>, unassigned.
\<close>

theorem GetBackups_rollup_status:
  "(\<forall>summary flag'. GetBackups_summary flag b = Inr (summary, flag') \<longrightarrow>
      (finished b = None \<longrightarrow> summary_status summary = Some IN_PROGRESS \<and> flag' = IN_PROGRESS) \<and>
      (finished b \<noteq> None \<longrightarrow> flag' = flag \<and>
         summary_status summary = (if flag \<noteq> IN_PROGRESS then Some SUCCESS else None))) \<and>
   (get_backups env = Inr bs \<and> (\<forall>b\<in>set bs. \<exists>cn. complete_nodes b = Inr cn) \<longrightarrow>
      (\<exists>ss. GetBackups env context = (Inr \<lparr>backups = ss\<rparr>, context) \<and> length ss = length bs \<and>
         (\<forall>i<length bs. summary_status (ss ! i) =
            (if finished (bs ! i) = None then Some IN_PROGRESS
             else if \<exists>b\<in>set (take i bs). finished b = None then None
             else Some SUCCESS))))"
  using GetBackups_summary_flag [of "flag" "b"] GetBackups_rollup [of "env" "bs" "context"]
  by blast

theorem GetBackups_rollup_status_witness:
  "get_backups (sample_env\<lparr>get_backups := Inr
       [sample_backup ''A'' (Some 100) (Some 200), sample_backup ''B'' (Some 300) None,
        sample_backup ''C'' (Some 400) (Some 500)]\<rparr>)
     = Inr [sample_backup ''A'' (Some 100) (Some 200), sample_backup ''B'' (Some 300) None,
            sample_backup ''C'' (Some 400) (Some 500)] \<and>
   complete_nodes (sample_backup ''A'' (Some 100) (Some 200)) = Inr [''node1''] \<and>
   complete_nodes (sample_backup ''B'' (Some 300) None) = Inr [''node1''] \<and>
   complete_nodes (sample_backup ''C'' (Some 400) (Some 500)) = Inr [''node1''] \<and>
   map summary_status (backups (projr (fst (GetBackups
      (sample_env\<lparr>get_backups := Inr
         [sample_backup ''A'' (Some 100) (Some 200), sample_backup ''B'' (Some 300) None,
          sample_backup ''C'' (Some 400) (Some 500)]\<rparr>) new_context))))
     = [Some SUCCESS, Some IN_PROGRESS, None] \<and>
   finished (sample_backup ''C'' (Some 400) (Some 500)) \<noteq> None \<and>
   summary_status (fst (projr (GetBackups_summary IN_PROGRESS
      (sample_backup ''C'' (Some 400) (Some 500))))) = None \<and>
   snd (projr (GetBackups_summary IN_PROGRESS
      (sample_backup ''C'' (Some 400) (Some 500)))) = IN_PROGRESS \<and>
   finished (sample_backup ''B'' (Some 300) None) = None \<and>
   summary_status (fst (projr (GetBackups_summary SUCCESS
      (sample_backup ''B'' (Some 300) None)))) = Some IN_PROGRESS \<and>
   snd (projr (GetBackups_summary SUCCESS (sample_backup ''B'' (Some 300) None))) = IN_PROGRESS"
proof -
  let ?B = "sample_backup ''B'' (Some 300) None"
  let ?C = "sample_backup ''C'' (Some 400) (Some 500)"
  let ?bs = "[sample_backup ''A'' (Some 100) (Some 200), ?B, ?C]"
  let ?env = "sample_env\<lparr>get_backups := Inr ?bs\<rparr>"
  note rollup = GetBackups_rollup_status
  have listed: "get_backups ?env = Inr ?bs" by simp
  have nodes: "\<forall>b\<in>set ?bs. \<exists>cn. complete_nodes b = Inr cn"
    by (simp add: sample_backup_def)
  have roundC: "GetBackups_summary IN_PROGRESS ?C =
      Inr (fst (projr (GetBackups_summary IN_PROGRESS ?C)),
           snd (projr (GetBackups_summary IN_PROGRESS ?C)))"
    by (simp add: GetBackups_summary_returns sample_backup_def)
  have roundB: "GetBackups_summary SUCCESS ?B =
      Inr (fst (projr (GetBackups_summary SUCCESS ?B)),
           snd (projr (GetBackups_summary SUCCESS ?B)))"
    by (simp add: GetBackups_summary_returns sample_backup_def)
  have finC: "finished ?C \<noteq> None" and finB: "finished ?B = None"
    by (simp_all add: sample_backup_def)
  note rollup [of IN_PROGRESS ?C ?env ?bs new_context,
      THEN conjunct1, THEN spec, THEN spec, THEN mp, OF roundC]
  with finC
  have stepC: "summary_status (fst (projr (GetBackups_summary IN_PROGRESS ?C))) = None"
    "snd (projr (GetBackups_summary IN_PROGRESS ?C)) = IN_PROGRESS"
    by simp_all
  note rollup [of SUCCESS ?B ?env ?bs new_context,
      THEN conjunct1, THEN spec, THEN spec, THEN mp, OF roundB]
  with finB
  have stepB: "summary_status (fst (projr (GetBackups_summary SUCCESS ?B))) = Some IN_PROGRESS"
    "snd (projr (GetBackups_summary SUCCESS ?B)) = IN_PROGRESS"
    by simp_all
  from rollup [of IN_PROGRESS ?C ?env ?bs new_context] listed nodes
  obtain ss where ss: "GetBackups ?env new_context = (Inr \<lparr>backups = ss\<rparr>, new_context)"
    "length ss = 3"
    "\<forall>i<3. summary_status (ss ! i) =
            (if finished (?bs ! i) = None then Some IN_PROGRESS
             else if \<exists>b\<in>set (take i ?bs). finished b = None then None
             else Some SUCCESS)"
    by auto
  from ss(3) have "summary_status (ss ! 0) = Some SUCCESS"
    "summary_status (ss ! 1) = Some IN_PROGRESS" "summary_status (ss ! 2) = None"
    by (simp_all add: sample_backup_def numeral_2_eq_2)
  moreover from ss(2) obtain x y z where "ss = [x, y, z]"
    by (cases ss; cases "tl ss"; cases "tl (tl ss)") auto
  ultimately have "map summary_status ss = [Some SUCCESS, Some IN_PROGRESS, None]"
    by simp
  with ss(1) listed stepB stepC finB finC show ?thesis by (simp add: sample_backup_def)
qed

text \<open>
  Claim C3, as amended. When listing fails, \<^verbatim>\<open>GetBackups\<close> signals \<open>INTERNAL\<close> and
  returns an empty response. When summarizing fails at a record, it signals \<open>INTERNAL\<close>
  and returns the response object it was filling: it holds exactly the summaries of the
  records before the failing one, the same that \<^verbatim>\<open>GetBackups\<close> returns when only those
  records are listed.
\<close>

theorem GetBackups_failure_returns_built_summaries:
  "(\<forall>e. get_backups env = Inl e \<longrightarrow>
      GetBackups env ctx =
        (Inr \<lparr>backups = []\<rparr>,
         ctx\<lparr>details := Some (''failed to get backups: {}'', [ArgExc e]),
             code := Some INTERNAL\<rparr>)) \<and>
   (\<forall>pre bad post e.
      get_backups env = Inr (pre @ bad # post) \<and>
      (\<forall>b\<in>set pre. \<exists>cn. complete_nodes b = Inr cn) \<and> complete_nodes bad = Inl e \<longrightarrow>
      (\<exists>ss. length ss = length pre \<and>
         GetBackups (env\<lparr>get_backups := Inr pre\<rparr>) ctx = (Inr \<lparr>backups = ss\<rparr>, ctx) \<and>
         GetBackups env ctx =
           (Inr \<lparr>backups = ss\<rparr>,
            ctx\<lparr>details := Some (''failed to get backups: {}'', [ArgExc e]),
                code := Some INTERNAL\<rparr>)))"
proof -
  have listing: "\<forall>e. get_backups env = Inl e \<longrightarrow>
      GetBackups env ctx =
        (Inr \<lparr>backups = []\<rparr>,
         ctx\<lparr>details := Some (''failed to get backups: {}'', [ArgExc e]),
             code := Some INTERNAL\<rparr>)"
    by (simp add: GetBackups_not_listed)
  have summarizing: "\<exists>ss. length ss = length pre \<and>
         GetBackups (env\<lparr>get_backups := Inr pre\<rparr>) ctx = (Inr \<lparr>backups = ss\<rparr>, ctx) \<and>
         GetBackups env ctx =
           (Inr \<lparr>backups = ss\<rparr>,
            ctx\<lparr>details := Some (''failed to get backups: {}'', [ArgExc e]),
                code := Some INTERNAL\<rparr>)"
    if a: "get_backups env = Inr (pre @ bad # post) \<and>
      (\<forall>b\<in>set pre. \<exists>cn. complete_nodes b = Inr cn) \<and> complete_nodes bad = Inl e"
    for pre bad post e
  proof -
    from a have ok: "\<forall>b\<in>set pre. \<exists>cn. complete_nodes b = Inr cn"
      and bad: "complete_nodes bad = Inl e"
      and listed: "get_backups env = Inr (pre @ bad # post)" by simp_all
    from GetBackups_loop_returns [OF ok, of SUCCESS "\<lparr>backups = []\<rparr>"]
    obtain ss where ss:
      "GetBackups_loop SUCCESS pre \<lparr>backups = []\<rparr> = (None, \<lparr>backups = ss\<rparr>)"
      "length ss = length pre"
      by auto
    have "GetBackups (env\<lparr>get_backups := Inr pre\<rparr>) ctx = (Inr \<lparr>backups = ss\<rparr>, ctx)"
      by (simp add: GetBackups_listed ss(1))
    moreover have "GetBackups env ctx =
           (Inr \<lparr>backups = ss\<rparr>,
            ctx\<lparr>details := Some (''failed to get backups: {}'', [ArgExc e]),
                code := Some INTERNAL\<rparr>)"
      by (simp add: GetBackups_listed [OF listed] GetBackups_loop_raises [OF ok bad] ss(1))
    ultimately show ?thesis using ss(2) by blast
  qed
  from listing summarizing show ?thesis by blast
qed

text \<open>
  Claim C3 as stated fails: the second of two records cannot be summarized, and the
  response returned with the code \<open>INTERNAL\<close> still holds the summary of the first.
\<close>

theorem GetBackups_failure_partial_list:
  "fst (GetBackups (sample_env\<lparr>get_backups := Inr
       [sample_backup ''A'' (Some 100) (Some 200),
        (sample_backup ''B'' (Some 300) None)\<lparr>complete_nodes := Inl (Exception ''storage unavailable'')\<rparr>]\<rparr>)
       new_context)
     = Inr \<lparr>backups =
         [\<lparr>summary_backupName = ''A'', summary_startTime = 100, summary_finishTime = 200,
           summary_status = Some SUCCESS, totalNodes = 2, summary_finishedNodes = 1,
           nodes = [\<lparr>host = ''node1'', datacenter = ''dc1'', rack = ''r1'', tokens = [7, 42]\<rparr>,
                    \<lparr>host = ''node2'', datacenter = [], rack = [], tokens = []\<rparr>]\<rparr>]\<rparr> \<and>
   code (snd (GetBackups (sample_env\<lparr>get_backups := Inr
       [sample_backup ''A'' (Some 100) (Some 200),
        (sample_backup ''B'' (Some 300) None)\<lparr>complete_nodes := Inl (Exception ''storage unavailable'')\<rparr>]\<rparr>)
       new_context)) = Some INTERNAL"
  by (simp add: GetBackups_listed sample_backup_def sample_tokenmap_def tokenmap_node_def
      GetBackups_summary_returns GetBackups_summary_raises)

theorem GetBackups_failure_returns_built_summaries_witness:
  "get_backups (sample_env\<lparr>get_backups := Inl (Exception ''bucket not reachable'')\<rparr>)
     = Inl (Exception ''bucket not reachable'') \<and>
   GetBackups (sample_env\<lparr>get_backups := Inl (Exception ''bucket not reachable'')\<rparr>) new_context
     = (Inr \<lparr>backups = []\<rparr>,
        \<lparr>code = Some INTERNAL,
         details = Some (''failed to get backups: {}'', [ArgExc (Exception ''bucket not reachable'')])\<rparr>) \<and>
   complete_nodes (sample_backup ''A'' (Some 100) (Some 200)) = Inr [''node1''] \<and>
   complete_nodes ((sample_backup ''B'' (Some 300) None)
       \<lparr>complete_nodes := Inl (Exception ''storage unavailable'')\<rparr>)
     = Inl (Exception ''storage unavailable'') \<and>
   length (backups (projr (fst (GetBackups (sample_env\<lparr>get_backups := Inr
       [sample_backup ''A'' (Some 100) (Some 200),
        (sample_backup ''B'' (Some 300) None)\<lparr>complete_nodes := Inl (Exception ''storage unavailable'')\<rparr>,
        sample_backup ''C'' (Some 400) (Some 500)]\<rparr>)
       new_context)))) = 1 \<and>
   fst (GetBackups (sample_env\<lparr>get_backups := Inr
       [sample_backup ''A'' (Some 100) (Some 200),
        (sample_backup ''B'' (Some 300) None)\<lparr>complete_nodes := Inl (Exception ''storage unavailable'')\<rparr>,
        sample_backup ''C'' (Some 400) (Some 500)]\<rparr>)
       new_context)
   = fst (GetBackups (sample_env\<lparr>get_backups := Inr [sample_backup ''A'' (Some 100) (Some 200)]\<rparr>)
       new_context) \<and>
   code (snd (GetBackups (sample_env\<lparr>get_backups := Inr
       [sample_backup ''A'' (Some 100) (Some 200),
        (sample_backup ''B'' (Some 300) None)\<lparr>complete_nodes := Inl (Exception ''storage unavailable'')\<rparr>,
        sample_backup ''C'' (Some 400) (Some 500)]\<rparr>)
       new_context)) = Some INTERNAL"
proof -
  let ?A = "sample_backup ''A'' (Some 100) (Some 200)"
  let ?B = "(sample_backup ''B'' (Some 300) None)\<lparr>complete_nodes := Inl (Exception ''storage unavailable'')\<rparr>"
  let ?C = "sample_backup ''C'' (Some 400) (Some 500)"
  let ?env = "sample_env\<lparr>get_backups := Inr [?A, ?B, ?C]\<rparr>"
  let ?unlisted = "sample_env\<lparr>get_backups := Inl (Exception ''bucket not reachable'')\<rparr>"
  have listed: "get_backups ?env = Inr ([?A] @ ?B # [?C])" by simp
  have ok: "\<forall>b\<in>set [?A]. \<exists>cn. complete_nodes b = Inr cn" by (simp add: sample_backup_def)
  have bad: "complete_nodes ?B = Inl (Exception ''storage unavailable'')" by simp
  have upd: "?env\<lparr>get_backups := Inr [?A]\<rparr> = sample_env\<lparr>get_backups := Inr [?A]\<rparr>" by simp
  from GetBackups_failure_returns_built_summaries [of ?env new_context] listed ok bad
  obtain ss where ss: "length ss = length [?A]"
    "GetBackups (?env\<lparr>get_backups := Inr [?A]\<rparr>) new_context = (Inr \<lparr>backups = ss\<rparr>, new_context)"
    "GetBackups ?env new_context =
       (Inr \<lparr>backups = ss\<rparr>,
        new_context\<lparr>details := Some (''failed to get backups: {}'', [ArgExc (Exception ''storage unavailable'')]),
                    code := Some INTERNAL\<rparr>)"
    by blast
  have first: "GetBackups ?unlisted new_context
     = (Inr \<lparr>backups = []\<rparr>,
        \<lparr>code = Some INTERNAL,
         details = Some (''failed to get backups: {}'', [ArgExc (Exception ''bucket not reachable'')])\<rparr>)"
    using GetBackups_failure_returns_built_summaries [of ?unlisted new_context] by (simp add: new_context_def)
  from ss upd first show ?thesis
    by (simp add: sample_backup_def)
qed

lemma tokenmap_node_row:
  "k < length tm \<Longrightarrow>
   host (map (\<lambda>(node, entry). tokenmap_node node entry) tm ! k) = fst (tm ! k) \<and>
   datacenter (map (\<lambda>(node, entry). tokenmap_node node entry) tm ! k)
     = (case entry_dc (snd (tm ! k)) of None \<Rightarrow> [] | Some d \<Rightarrow> d) \<and>
   rack (map (\<lambda>(node, entry). tokenmap_node node entry) tm ! k)
     = (case entry_rack (snd (tm ! k)) of None \<Rightarrow> [] | Some r \<Rightarrow> r) \<and>
   tokens (map (\<lambda>(node, entry). tokenmap_node node entry) tm ! k)
     = (case entry_tokens (snd (tm ! k)) of None \<Rightarrow> [] | Some ts \<Rightarrow> ts)"
  by (cases "tm ! k") (simp add: tokenmap_node_def split: option.splits)

lemma GetBackups_response_summaries:
  assumes "get_backups env = Inr bs" and "GetBackups env ctx = (Inr response, ctx')"
    and "i < length (backups response)"
  shows "i < length bs \<and> (\<exists>l l'. GetBackups_summary l (bs ! i) = Inr (backups response ! i, l'))"
proof -
  obtain err response1 where loop: "GetBackups_loop SUCCESS bs \<lparr>backups = []\<rparr> = (err, response1)"
    by (cases "GetBackups_loop SUCCESS bs \<lparr>backups = []\<rparr>")
  with assms(1,2) have "response = response1"
    by (cases err) (simp_all add: GetBackups_listed)
  with GetBackups_loop_summaries [OF loop] obtain ss where ss:
    "backups response = ss" "length ss \<le> length bs"
    "\<forall>i<length ss. \<exists>l l'. GetBackups_summary l (bs ! i) = Inr (ss ! i, l')"
    by auto
  with assms(3) show ?thesis by auto
qed

text \<open>
  Claim C7. Every summary in the response of \<^verbatim>\<open>GetBackups\<close> is the summary of the
  record at the same position of the listing: its name is the name of the record; its
  start time is 0 without start timestamp and the timestamp otherwise; without finish
  timestamp its finish time is 0 and its status \<open>IN_PROGRESS\<close>, otherwise the finish time
  is the timestamp; \<open>totalNodes\<close> is the size of the token map and \<open>finishedNodes\<close>
  the number of complete nodes; there is one node row per entry of the token map, with
  the empty string for a missing datacenter or rack and the empty list for missing
  tokens.
\<close>

theorem GetBackups_summary_of_record:
  assumes "get_backups env = Inr bs" and "GetBackups env ctx = (Inr response, ctx')"
    and "i < length (backups response)"
  shows "i < length bs \<and>
     summary_backupName (backups response ! i) = name (bs ! i) \<and>
     summary_startTime (backups response ! i)
       = (case started (bs ! i) of None \<Rightarrow> 0 | Some t \<Rightarrow> t) \<and>
     (finished (bs ! i) = None \<longrightarrow>
        summary_finishTime (backups response ! i) = 0 \<and>
        summary_status (backups response ! i) = Some IN_PROGRESS) \<and>
     (\<forall>t. finished (bs ! i) = Some t \<longrightarrow> summary_finishTime (backups response ! i) = t) \<and>
     totalNodes (backups response ! i) = length (tokenmap (bs ! i)) \<and>
     (\<exists>cn. complete_nodes (bs ! i) = Inr cn \<and>
        summary_finishedNodes (backups response ! i) = length cn) \<and>
     length (nodes (backups response ! i)) = length (tokenmap (bs ! i)) \<and>
     (\<forall>k<length (tokenmap (bs ! i)).
        host (nodes (backups response ! i) ! k) = fst (tokenmap (bs ! i) ! k) \<and>
        datacenter (nodes (backups response ! i) ! k)
          = (case entry_dc (snd (tokenmap (bs ! i) ! k)) of None \<Rightarrow> [] | Some d \<Rightarrow> d) \<and>
        rack (nodes (backups response ! i) ! k)
          = (case entry_rack (snd (tokenmap (bs ! i) ! k)) of None \<Rightarrow> [] | Some r \<Rightarrow> r) \<and>
        tokens (nodes (backups response ! i) ! k)
          = (case entry_tokens (snd (tokenmap (bs ! i) ! k)) of None \<Rightarrow> [] | Some ts \<Rightarrow> ts))"
proof -
  from GetBackups_response_summaries [OF assms] obtain l l' where
    i: "i < length bs" and
    s: "GetBackups_summary l (bs ! i) = Inr (backups response ! i, l')" by blast
  from GetBackups_summary_fields [OF s] obtain cn where
    cn: "complete_nodes (bs ! i) = Inr cn" and
    eq: "backups response ! i =
       \<lparr>summary_backupName = name (bs ! i),
        summary_startTime = (case started (bs ! i) of None \<Rightarrow> 0 | Some t \<Rightarrow> t),
        summary_finishTime = (case finished (bs ! i) of None \<Rightarrow> 0 | Some t \<Rightarrow> t),
        summary_status =
          (if finished (bs ! i) = None then Some IN_PROGRESS
           else if l \<noteq> IN_PROGRESS then Some SUCCESS else None),
        totalNodes = length (tokenmap (bs ! i)),
        summary_finishedNodes = length cn,
        nodes = map (\<lambda>(node, entry). tokenmap_node node entry) (tokenmap (bs ! i))\<rparr>"
    by blast
  have rows: "\<forall>k<length (tokenmap (bs ! i)).
        host (nodes (backups response ! i) ! k) = fst (tokenmap (bs ! i) ! k) \<and>
        datacenter (nodes (backups response ! i) ! k)
          = (case entry_dc (snd (tokenmap (bs ! i) ! k)) of None \<Rightarrow> [] | Some d \<Rightarrow> d) \<and>
        rack (nodes (backups response ! i) ! k)
          = (case entry_rack (snd (tokenmap (bs ! i) ! k)) of None \<Rightarrow> [] | Some r \<Rightarrow> r) \<and>
        tokens (nodes (backups response ! i) ! k)
          = (case entry_tokens (snd (tokenmap (bs ! i) ! k)) of None \<Rightarrow> [] | Some ts \<Rightarrow> ts)"
    using tokenmap_node_row [of _ "tokenmap (bs ! i)"] by (simp add: eq)
  have fields:
    "summary_backupName (backups response ! i) = name (bs ! i)"
    "summary_startTime (backups response ! i)
       = (case started (bs ! i) of None \<Rightarrow> 0 | Some t \<Rightarrow> t)"
    "finished (bs ! i) = None \<longrightarrow>
        summary_finishTime (backups response ! i) = 0 \<and>
        summary_status (backups response ! i) = Some IN_PROGRESS"
    "\<forall>t. finished (bs ! i) = Some t \<longrightarrow> summary_finishTime (backups response ! i) = t"
    "totalNodes (backups response ! i) = length (tokenmap (bs ! i))"
    "summary_finishedNodes (backups response ! i) = length cn"
    "length (nodes (backups response ! i)) = length (tokenmap (bs ! i))"
    by (simp_all add: eq)
  from i cn fields rows show ?thesis by blast
qed

theorem GetBackups_summary_of_record_witness:
  "get_backups (sample_env\<lparr>get_backups := Inr [sample_backup ''B'' None None]\<rparr>)
     = Inr [sample_backup ''B'' None None] \<and>
   GetBackups (sample_env\<lparr>get_backups := Inr [sample_backup ''B'' None None]\<rparr>) new_context
     = (Inr \<lparr>backups =
         [\<lparr>summary_backupName = ''B'', summary_startTime = 0, summary_finishTime = 0,
           summary_status = Some IN_PROGRESS, totalNodes = 2, summary_finishedNodes = 1,
           nodes = [\<lparr>host = ''node1'', datacenter = ''dc1'', rack = ''r1'', tokens = [7, 42]\<rparr>,
                    \<lparr>host = ''node2'', datacenter = [], rack = [], tokens = []\<rparr>]\<rparr>]\<rparr>,
        new_context) \<and>
   (0::nat) < length [sample_backup ''B'' None None] \<and>
   started (sample_backup ''B'' None None) = None \<and>
   finished (sample_backup ''B'' None None) = None \<and>
   length (tokenmap (sample_backup ''B'' None None)) = 2 \<and>
   complete_nodes (sample_backup ''B'' None None) = Inr [''node1''] \<and>
   entry_dc (snd (tokenmap (sample_backup ''B'' None None) ! 1)) = None \<and>
   entry_tokens (snd (tokenmap (sample_backup ''B'' None None) ! 1)) = None"
proof -
  let ?bs = "[sample_backup ''B'' None None]"
  let ?env = "sample_env\<lparr>get_backups := Inr ?bs\<rparr>"
  let ?r = "\<lparr>backups =
         [\<lparr>summary_backupName = ''B'', summary_startTime = 0, summary_finishTime = 0,
           summary_status = Some IN_PROGRESS, totalNodes = 2, summary_finishedNodes = 1,
           nodes = [\<lparr>host = ''node1'', datacenter = ''dc1'', rack = ''r1'', tokens = [7, 42]\<rparr>,
                    \<lparr>host = ''node2'', datacenter = [], rack = [], tokens = []\<rparr>]\<rparr>]\<rparr>"
  have listed: "get_backups ?env = Inr ?bs" by simp
  have run: "GetBackups ?env new_context = (Inr ?r, new_context)"
    by (simp add: GetBackups_listed sample_backup_def sample_tokenmap_def tokenmap_node_def
        GetBackups_summary_returns)
  have idx: "0 < length (backups ?r)" by simp
  note GetBackups_summary_of_record [OF listed run idx]
  then show ?thesis using listed run
    by (simp add: sample_backup_def sample_tokenmap_def)
qed

subsection \<open>\<^verbatim>\<open>BackupStatus\<close>\<close>

text \<open>
  Claim C10 on the code: an exception that is not a \<^verbatim>\<open>KeyError\<close> leaves
  \<^verbatim>\<open>BackupStatus\<close>. Here the durable record exists and has no start timestamp, so
  formatting it raises \<^verbatim>\<open>TypeError\<close>; and, second, the storage layer itself fails with
  another exception.
\<close>

theorem BackupStatus_propagates_other_exceptions:
  "fst (BackupStatus
     (sample_env\<lparr>get_cluster_backup := (get_cluster_backup sample_env)
        (''snap1'' := Inr (sample_backup ''snap1'' None None))\<rparr>)
     \<lparr>request_backupName = ''snap1''\<rparr> new_context sample_state)
   = Inl (TypeError ''an integer is required (got type NoneType)'') \<and>
   fst (BackupStatus
     (sample_env\<lparr>get_cluster_backup := (get_cluster_backup sample_env)
        (''snap1'' := Inl (Exception ''storage unavailable''))\<rparr>)
     \<lparr>request_backupName = ''snap1''\<rparr> new_context sample_state)
   = Inl (Exception ''storage unavailable'')"
  by (simp add: BackupStatus_def BackupStatus_try_def sample_env_def sample_backup_def
      sample_state_def init_state_def handle_backup_status_def get_backup_future_def
      logging_info_def fromtimestamp_strftime_def new_BackupStatusResponse_def Let_def)

end
